theory Spec2Isabelle
  imports Complex_Main "HOL-Library.Sublist"
begin

section \<open>Shared data: exceptions, formatted messages, log events\<close>

text \<open>
  The Python exceptions the modelled functions raise or catch. All of them are
  subclasses of \<^verbatim>\<open>Exception\<close>, the class the handlers of the source name.
\<close>

datatype py_error =
    ValueError string
  | KeyError string
  | TypeError string
  | ImportError string
  | JSONDecodeError string
  | RuntimeError string

text \<open>
  An f-string is kept as the list of its pieces: the literal text and the
  interpolated values, which are not rendered.
\<close>

datatype fmt =
    Lit string
  | Urls "string list"
  | Len nat
  | Exc py_error

text \<open>
  A log entry as the \<^verbatim>\<open>_log_event\<close> helpers append it:
  \<^verbatim>\<open>{"message": ..., "done": ..., "error": ..., "timestamp": ...}\<close>. The wall-clock
  timestamp is left out of the model; an entry written without an
  \<^verbatim>\<open>"error"\<close> key has \<open>error_flag = False\<close>.
\<close>

record log_event =
  message :: "fmt list"
  done_flag :: bool
  error_flag :: bool

definition log_entry :: "fmt list \<Rightarrow> bool \<Rightarrow> bool \<Rightarrow> log_event" where
  "log_entry m d e = \<lparr>message = m, done_flag = d, error_flag = e\<rparr>"

text \<open>JSON values as \<^verbatim>\<open>json.loads\<close> returns them.\<close>

datatype json =
    JNull
  | JBool bool
  | JNum real
  | JStr string
  | JArr "json list"
  | JObj "(string \<times> json) list"

text \<open>
  \<^verbatim>\<open>len(v)\<close> on a parsed JSON value: defined for strings, lists and dicts, a
  \<^verbatim>\<open>TypeError\<close> for numbers, booleans and \<^verbatim>\<open>None\<close>.
\<close>

fun py_len :: "json \<Rightarrow> py_error + nat" where
  "py_len (JStr s) = Inr (length s)"
| "py_len (JArr vs) = Inr (length vs)"
| "py_len (JObj kvs) = Inr (length kvs)"
| "py_len JNull = Inl (TypeError ''object of type NoneType has no len()'')"
| "py_len (JBool b) = Inl (TypeError ''object of type bool has no len()'')"
| "py_len (JNum x) = Inl (TypeError ''object of type number has no len()'')"

text \<open>
  The entries of the shared \<^verbatim>\<open>AgentState\<close> dictionary that the modelled agents
  write: two logs and the curator's result.
\<close>

record agent_state =
  research_logs :: "log_event list"
  writer_logs :: "log_event list"
  curated_sources :: "json option"

definition append_research_log :: "fmt list \<Rightarrow> bool \<Rightarrow> bool \<Rightarrow> agent_state \<Rightarrow> agent_state" where
  "append_research_log m d e s = s\<lparr>research_logs := research_logs s @ [log_entry m d e]\<rparr>"

definition append_writer_log :: "fmt list \<Rightarrow> bool \<Rightarrow> bool \<Rightarrow> agent_state \<Rightarrow> agent_state" where
  "append_writer_log m d e s = s\<lparr>writer_logs := writer_logs s @ [log_entry m d e]\<rparr>"

section \<open>URL deduplication: \<^verbatim>\<open>ResearchSkill._get_new_urls\<close>\<close>

text \<open>
  The parts of the skill and of its researcher that \<^verbatim>\<open>_get_new_urls\<close> reads and
  writes: the researcher's visited set and verbosity flag, the skill's
  \<^verbatim>\<open>researcher_logs\<close>, and the URLs handed to \<^verbatim>\<open>stream_output\<close>.
\<close>

record research_skill =
  visited_urls :: "string set"
  verbose :: bool
  researcher_logs :: "log_event list"
  streamed :: "string list"

definition skill_log_event :: "fmt list \<Rightarrow> bool \<Rightarrow> bool \<Rightarrow> research_skill \<Rightarrow> research_skill" where
  "skill_log_event m d e s = s\<lparr>researcher_logs := researcher_logs s @ [log_entry m d e]\<rparr>"

text \<open>
  The body of the \<^verbatim>\<open>for url in url_set_input\<close> loop, with the list
  \<^verbatim>\<open>new_urls\<close> as an accumulator.
\<close>

fun new_urls_loop :: "string list \<Rightarrow> research_skill \<Rightarrow> string list \<Rightarrow> string list \<times> research_skill" where
  "new_urls_loop [] s new_urls = (new_urls, s)"
| "new_urls_loop (url # rest) s new_urls =
     (if url \<notin> visited_urls s then
        (let s1 = s\<lparr>visited_urls := insert url (visited_urls s)\<rparr>;
             s2 = (if verbose s1 then s1\<lparr>streamed := streamed s1 @ [url]\<rparr> else s1)
         in new_urls_loop rest s2 (new_urls @ [url]))
      else new_urls_loop rest s new_urls)"

definition get_new_urls :: "string list \<Rightarrow> research_skill \<Rightarrow> string list \<times> research_skill" where
  "get_new_urls url_set_input s =
     (let s0 = skill_log_event [Lit ''Getting new URLs from: '', Urls url_set_input] False False s;
          (new_urls, s1) = new_urls_loop url_set_input s0 []
      in (new_urls, skill_log_event [Lit ''New URLs: '', Urls new_urls] True False s1))"

text \<open>
  The claim's words, as a definition of their own: the URLs of the batch that
  are not in \<open>V\<close>, each at its first occurrence, in input order.
\<close>

definition first_new_urls :: "string set \<Rightarrow> string list \<Rightarrow> string list" where
  "first_new_urls V B =
     concat (map (\<lambda>i. if B ! i \<notin> V \<and> B ! i \<notin> set (take i B) then [B ! i] else []) [0..<length B])"

section \<open>The cost ledger: \<^verbatim>\<open>GPTResearcher.add_costs\<close>\<close>

text \<open>
  The values a caller can pass as \<^verbatim>\<open>cost\<close>. A Python float is modelled as a
  real number: rounding, infinities and NaN are outside the model.
  \<^verbatim>\<open>isinstance(cost, (float, int))\<close> holds for floats, for ints and for bools
  (\<^verbatim>\<open>bool\<close> is a subclass of \<^verbatim>\<open>int\<close>), and for nothing else.
\<close>

datatype py_value =
    PyInt int
  | PyFloat real
  | PyBool bool
  | PyStr string
  | PyNone

fun isinstance_float_int :: "py_value \<Rightarrow> bool" where
  "isinstance_float_int (PyInt n) = True"
| "isinstance_float_int (PyFloat x) = True"
| "isinstance_float_int (PyBool b) = True"
| "isinstance_float_int (PyStr s) = False"
| "isinstance_float_int PyNone = False"

text \<open>The number that \<^verbatim>\<open>+=\<close> adds for a numeric argument.\<close>

fun amount :: "py_value \<Rightarrow> real" where
  "amount (PyInt n) = of_int n"
| "amount (PyFloat x) = x"
| "amount (PyBool b) = (if b then 1 else 0)"
| "amount (PyStr s) = 0"
| "amount PyNone = 0"

text \<open>
  The entries of the shared state that \<^verbatim>\<open>add_costs\<close> touches. The constructor
  sets \<^verbatim>\<open>"costs"\<close> with \<^verbatim>\<open>setdefault("costs", 0.0)\<close> but never sets
  \<^verbatim>\<open>"log_handler"\<close>, so that key may be absent (\<open>None\<close>); when present only its
  truthiness matters. \<open>emitted\<close> counts the calls of \<^verbatim>\<open>copilotkit_emit_state\<close>.
\<close>

record cost_state =
  costs :: real
  log_handler :: "bool option"
  emitted :: nat

definition initial_cost_state :: "bool option \<Rightarrow> cost_state" where
  "initial_cost_state h = \<lparr>costs = 0, log_handler = h, emitted = 0\<rparr>"

text \<open>
  \<^verbatim>\<open>add_costs\<close> returns nothing; the model returns the exception it raises, if
  any, and the state it leaves. The type check comes first; the total is
  updated next; then \<^verbatim>\<open>self.state["log_handler"]\<close> is read, which raises
  \<^verbatim>\<open>KeyError\<close> on an absent key, after the update. The coroutine
  \<^verbatim>\<open>self._log_event(...)\<close> is created and never awaited, so it has no effect.
  The last statement awaits \<^verbatim>\<open>copilotkit_emit_state\<close> although the method is
  declared with a plain \<^verbatim>\<open>def\<close>; it is modelled as the emission it denotes.
\<close>

definition add_costs :: "py_value \<Rightarrow> cost_state \<Rightarrow> py_error option \<times> cost_state" where
  "add_costs cost s =
     (if \<not> isinstance_float_int cost then
        (Some (ValueError ''Cost must be an integer or float''), s)
      else
        (let s1 = s\<lparr>costs := costs s + amount cost\<rparr> in
         case log_handler s1 of
           None \<Rightarrow> (Some (KeyError ''log_handler''), s1)
         | Some h \<Rightarrow> (None, s1\<lparr>emitted := emitted s1 + 1\<rparr>)))"

text \<open>A sequence of calls, each on the state the previous one left.\<close>

fun add_costs_all :: "py_value list \<Rightarrow> cost_state \<Rightarrow> cost_state" where
  "add_costs_all [] s = s"
| "add_costs_all (c # cs) s = add_costs_all cs (snd (add_costs c s))"

text \<open>The totals seen after each call of a sequence, the starting total first.\<close>

fun cost_totals :: "py_value list \<Rightarrow> cost_state \<Rightarrow> real list" where
  "cost_totals [] s = [costs s]"
| "cost_totals (c # cs) s = costs s # cost_totals cs (snd (add_costs c s))"


section \<open>Image selection: \<^verbatim>\<open>BrowserSkill.select_top_images\<close>\<close>

text \<open>
  An image dictionary with its \<^verbatim>\<open>'url'\<close> and \<^verbatim>\<open>'score'\<close> keys.
\<close>

record image =
  url :: string
  score :: int





section \<open>Source curation: \<^verbatim>\<open>SourceCurator.curate_sources\<close>\<close>

text \<open>
  \<^verbatim>\<open>curate_sources\<close> returns either the parsed model output or the list it was
  given.
\<close>

datatype 'a curation = Curated json | Unfiltered "'a list"

text \<open>
  The model call and the parser are outside the modelled files:
  \<open>llm_response\<close> is what \<^verbatim>\<open>create_chat_completion\<close> does (an exception or the
  response text) and \<open>json_loads\<close> is \<^verbatim>\<open>json.loads\<close>. Everything from the model
  call to the \<^verbatim>\<open>return curated_sources\<close> is inside one \<^verbatim>\<open>try\<close>, whose handler
  \<^verbatim>\<open>except Exception\<close> logs an error event and returns \<^verbatim>\<open>source_data\<close>; the
  \<^verbatim>\<open>len(curated_sources)\<close> of the first log message is inside it too. The
  \<^verbatim>\<open>print\<close> calls are left out.
\<close>

definition curation_failed :: "'a list \<Rightarrow> agent_state \<Rightarrow> py_error \<Rightarrow> 'a curation \<times> agent_state" where
  "curation_failed source_data s e =
     (Unfiltered source_data,
      append_research_log [Lit ''Error curating sources: '', Exc e] True True s)"

definition curate_sources ::
  "(py_error + string) \<Rightarrow> (string \<Rightarrow> py_error + json) \<Rightarrow> 'a list \<Rightarrow> agent_state \<Rightarrow> 'a curation \<times> agent_state"
where
  "curate_sources llm_response json_loads source_data s =
     (let s0 = append_research_log
                 [Lit ''Evaluating and curating sources by credibility and relevance...''] False False s
      in case llm_response of
           Inl e \<Rightarrow> curation_failed source_data s0 e
         | Inr response \<Rightarrow>
             (case json_loads response of
                Inl e \<Rightarrow> curation_failed source_data s0 e
              | Inr curated \<Rightarrow>
                  (case py_len curated of
                     Inl e \<Rightarrow> curation_failed source_data s0 e
                   | Inr n \<Rightarrow>
                       (let s1 = append_research_log [Lit ''Curated '', Len n, Lit '' sources''] True False s0;
                            s2 = s1\<lparr>curated_sources := Some curated\<rparr>;
                            s3 = append_research_log
                                   [Lit ''Verified and ranked top '', Len n, Lit '' most reliable sources'']
                                   False False s2
                        in (Curated curated, s3)))))"

section \<open>Report generation: \<^verbatim>\<open>generate_report\<close>\<close>

record chat_message =
  role :: string
  content :: string

text \<open>
  \<^verbatim>\<open>create_chat_completion\<close> is outside the modelled files. It is a parameter
  \<open>llm\<close> that tells, for the number of calls made before and the messages
  sent, whether the call raises or what text it returns; so two calls may
  differ even on equal messages.
\<close>

type_synonym llm = "nat \<Rightarrow> chat_message list \<Rightarrow> py_error + string"

text \<open>
  What a call of \<^verbatim>\<open>generate_report\<close> leaves: the returned report, the message
  lists of the model calls it made in order, the state (absent or falsy:
  \<open>None\<close>), and the lines printed.
\<close>

record report_outcome =
  report :: string
  calls :: "chat_message list list"
  state_after :: "agent_state option"
  printed :: "fmt list list"

definition structured_messages :: "string \<Rightarrow> string \<Rightarrow> chat_message list" where
  "structured_messages agent_role_prompt prompt =
     [\<lparr>role = ''system'', content = agent_role_prompt\<rparr>, \<lparr>role = ''user'', content = prompt\<rparr>]"

text \<open>The fallback message: \<^verbatim>\<open>f"{agent_role_prompt}\n\n{content}"\<close>.\<close>

definition flattened_messages :: "string \<Rightarrow> string \<Rightarrow> chat_message list" where
  "flattened_messages agent_role_prompt prompt =
     [\<lparr>role = ''user'', content = agent_role_prompt @ [CHR 0x0A, CHR 0x0A] @ prompt\<rparr>]"

text \<open>
  \<open>prompt\<close> is the text \<^verbatim>\<open>content\<close> that the prompt template of the report type
  produces before the first \<^verbatim>\<open>try\<close>. The first \<^verbatim>\<open>try\<close> has a bare
  \<^verbatim>\<open>except\<close>; the second attempt sits in that handler in a \<^verbatim>\<open>try\<close> of its own,
  whose handler logs and prints. \<^verbatim>\<open>report\<close> starts as the empty string and is
  what the function returns in the end.
\<close>

definition generate_report :: "llm \<Rightarrow> string \<Rightarrow> string \<Rightarrow> agent_state option \<Rightarrow> report_outcome" where
  "generate_report llm agent_role_prompt prompt state =
     (let state1 = map_option (append_writer_log [Lit ''Generating report...''] False False) state;
          first = structured_messages agent_role_prompt prompt
      in case llm 0 first of
           Inr text \<Rightarrow>
             \<lparr>report = text, calls = [first],
              state_after = map_option (append_writer_log [Lit ''Report generated''] True False) state1,
              printed = []\<rparr>
         | Inl e1 \<Rightarrow>
             (let second = flattened_messages agent_role_prompt prompt
              in case llm 1 second of
                   Inr text \<Rightarrow>
                     \<lparr>report = text, calls = [first, second], state_after = state1, printed = []\<rparr>
                 | Inl e \<Rightarrow>
                     \<lparr>report = [], calls = [first, second],
                      state_after =
                        map_option (append_writer_log [Lit ''Error generating report: '', Exc e] True True) state1,
                      printed = [[Lit ''Error in generate_report: '', Exc e]]\<rparr>))"


section \<open>Provider registries: \<^verbatim>\<open>get_retriever\<close>, \<^verbatim>\<open>get_retrievers\<close>, \<^verbatim>\<open>from_provider\<close>\<close>

text \<open>The retriever classes that \<^verbatim>\<open>retrievers/__init__.py\<close> exports.\<close>

datatype retriever_class =
    TavilySearch
  | CustomRetriever
  | Duckduckgo
  | SearchApiSearch
  | SerperSearch
  | SerpApiSearch
  | GoogleSearch
  | SearxSearch
  | BingSearch
  | ArxivSearch
  | SemanticScholarSearch
  | PubMedCentralSearch
  | ExaSearch

text \<open>
  The \<^verbatim>\<open>match\<close> statement of \<^verbatim>\<open>get_retriever\<close>, case by case; the wildcard case
  returns \<^verbatim>\<open>None\<close>.
\<close>

definition get_retriever :: "string \<Rightarrow> retriever_class option" where
  "get_retriever r =
     (if r = ''google'' then Some GoogleSearch
      else if r = ''searx'' then Some SearxSearch
      else if r = ''searchapi'' then Some SearchApiSearch
      else if r = ''serpapi'' then Some SerpApiSearch
      else if r = ''serper'' then Some SerperSearch
      else if r = ''duckduckgo'' then Some Duckduckgo
      else if r = ''bing'' then Some BingSearch
      else if r = ''arxiv'' then Some ArxivSearch
      else if r = ''tavily'' then Some TavilySearch
      else if r = ''exa'' then Some ExaSearch
      else if r = ''semantic_scholar'' then Some SemanticScholarSearch
      else if r = ''pubmed_central'' then Some PubMedCentralSearch
      else if r = ''custom'' then Some CustomRetriever
      else None)"

text \<open>The names that \<^verbatim>\<open>get_retriever\<close> has a case for.\<close>

definition retriever_names :: "string list" where
  "retriever_names = 
     [''google'', ''searx'', ''searchapi'', ''serpapi'', ''serper'', ''duckduckgo'', ''bing'', ''arxiv'', ''tavily'', ''exa'', ''semantic_scholar'', ''pubmed_central'', ''custom'']"

definition get_default_retriever :: retriever_class where
  "get_default_retriever = TavilySearch"

text \<open>The \<^verbatim>\<open>__name__\<close> of the default retriever class.\<close>

definition default_retriever_name :: string where
  "default_retriever_name = ''TavilySearch''"

text \<open>
  The configuration object, with a falsy \<^verbatim>\<open>retrievers\<close> (\<^verbatim>\<open>None\<close> or empty) as
  the empty list and a falsy \<^verbatim>\<open>retriever\<close> as the empty string; the headers
  are a dictionary of strings.
\<close>

record config =
  retrievers :: "string list"
  retriever :: string

definition truthy_str :: "string option \<Rightarrow> bool" where
  "truthy_str v = (case v of None \<Rightarrow> False | Some t \<Rightarrow> t \<noteq> [])"

text \<open>\<^verbatim>\<open>s.split(",")\<close>.\<close>

fun split_comma :: "string \<Rightarrow> string list" where
  "split_comma [] = [[]]"
| "split_comma (c # cs) =
     (if c = CHR '','' then [] # split_comma cs
      else (case split_comma cs of [] \<Rightarrow> [[c]] | w # ws \<Rightarrow> (c # w) # ws))"

text \<open>The \<^verbatim>\<open>if\<close>/\<^verbatim>\<open>elif\<close> chain that picks the list of names.\<close>

definition chosen_retrievers :: "(string \<rightharpoonup> string) \<Rightarrow> config \<Rightarrow> string list" where
  "chosen_retrievers headers cfg =
     (if truthy_str (headers ''retrievers'') then split_comma (the (headers ''retrievers''))
      else if truthy_str (headers ''retriever'') then [the (headers ''retriever'')]
      else if retrievers cfg \<noteq> [] then retrievers cfg
      else if retriever cfg \<noteq> [] then [retriever cfg]
      else [default_retriever_name])"

text \<open>\<^verbatim>\<open>get_retriever(r) or get_default_retriever()\<close>.\<close>

definition retriever_or_default :: "string \<Rightarrow> retriever_class" where
  "retriever_or_default r = (case get_retriever r of None \<Rightarrow> get_default_retriever | Some c \<Rightarrow> c)"

definition get_retrievers :: "(string \<rightharpoonup> string) \<Rightarrow> config \<Rightarrow> retriever_class list" where
  "get_retrievers headers cfg = map retriever_or_default (chosen_retrievers headers cfg)"

text \<open>The chat model classes that \<^verbatim>\<open>from_provider\<close> instantiates.\<close>

datatype chat_class =
    ChatOpenAI
  | ChatAnthropic
  | AzureChatOpenAI
  | ChatCohere
  | ChatVertexAI
  | ChatGoogleGenerativeAI
  | ChatFireworks
  | ChatOllama
  | ChatTogether
  | ChatMistralAI
  | ChatHuggingFace
  | ChatGroq
  | ChatBedrock
  | ChatDashScope
  | ChatXAI
  | ChatLiteLLM
  | GigaChat

text \<open>
  \<^verbatim>\<open>_check_pkg\<close> raises \<^verbatim>\<open>ImportError\<close> when \<^verbatim>\<open>importlib.util.find_spec\<close> finds no
  such package; \<open>find_spec\<close> is a parameter.
\<close>

definition with_pkg :: "(string \<Rightarrow> bool) \<Rightarrow> string \<Rightarrow> py_error + chat_class \<Rightarrow> py_error + chat_class" where
  "with_pkg find_spec pkg k = (if find_spec pkg then k else Inl (ImportError pkg))"

text \<open>
  The \<^verbatim>\<open>if\<close>/\<^verbatim>\<open>elif\<close> chain of \<^verbatim>\<open>GenericLLMProvider.from_provider\<close>, with the
  class it instantiates as the result; keyword arguments are left out, the
  two reads of \<^verbatim>\<open>os.environ\<close> are kept. The \<^verbatim>\<open>ValueError\<close> message is kept up
  to the provider name.
\<close>

definition from_provider :: "(string \<Rightarrow> bool) \<Rightarrow> (string \<rightharpoonup> string) \<Rightarrow> string \<Rightarrow> py_error + chat_class" where
  "from_provider find_spec environ provider =
     (if provider = ''openai'' then with_pkg find_spec ''langchain_openai'' (Inr ChatOpenAI)
      else if provider = ''anthropic'' then with_pkg find_spec ''langchain_anthropic'' (Inr ChatAnthropic)
      else if provider = ''azure_openai'' then with_pkg find_spec ''langchain_openai'' (Inr AzureChatOpenAI)
      else if provider = ''cohere'' then with_pkg find_spec ''langchain_cohere'' (Inr ChatCohere)
      else if provider = ''google_vertexai'' then with_pkg find_spec ''langchain_google_vertexai'' (Inr ChatVertexAI)
      else if provider = ''google_genai'' then with_pkg find_spec ''langchain_google_genai'' (Inr ChatGoogleGenerativeAI)
      else if provider = ''fireworks'' then with_pkg find_spec ''langchain_fireworks'' (Inr ChatFireworks)
      else if provider = ''ollama'' then
        with_pkg find_spec ''langchain_community''
          (case environ ''OLLAMA_BASE_URL'' of None \<Rightarrow> Inl (KeyError ''OLLAMA_BASE_URL'') | Some v \<Rightarrow> Inr ChatOllama)
      else if provider = ''together'' then with_pkg find_spec ''langchain_together'' (Inr ChatTogether)
      else if provider = ''mistralai'' then with_pkg find_spec ''langchain_mistralai'' (Inr ChatMistralAI)
      else if provider = ''huggingface'' then with_pkg find_spec ''langchain_huggingface'' (Inr ChatHuggingFace)
      else if provider = ''groq'' then with_pkg find_spec ''langchain_groq'' (Inr ChatGroq)
      else if provider = ''bedrock'' then with_pkg find_spec ''langchain_aws'' (Inr ChatBedrock)
      else if provider = ''dashscope'' then with_pkg find_spec ''langchain_dashscope'' (Inr ChatDashScope)
      else if provider = ''xai'' then with_pkg find_spec ''langchain_xai'' (Inr ChatXAI)
      else if provider = ''deepseek'' then
        with_pkg find_spec ''langchain_openai''
          (case environ ''DEEPSEEK_API_KEY'' of None \<Rightarrow> Inl (KeyError ''DEEPSEEK_API_KEY'') | Some v \<Rightarrow> Inr ChatOpenAI)
      else if provider = ''litellm'' then with_pkg find_spec ''langchain_community'' (Inr ChatLiteLLM)
      else if provider = ''gigachat'' then with_pkg find_spec ''langchain_gigachat'' (Inr GigaChat)
      else Inl (ValueError (''Unsupported '' @ provider)))"

text \<open>The set \<^verbatim>\<open>_SUPPORTED_PROVIDERS\<close>.\<close>

definition supported_providers :: "string list" where
  "supported_providers = 
     [''openai'', ''anthropic'', ''azure_openai'', ''cohere'', ''google_vertexai'', ''google_genai'', ''fireworks'', ''ollama'', ''together'', ''mistralai'', ''huggingface'', ''groq'', ''bedrock'', ''dashscope'', ''xai'', ''deepseek'', ''litellm'', ''gigachat'']"

section \<open>Sub-query lists: \<^verbatim>\<open>_get_context_by_web_search\<close>, \<^verbatim>\<open>_get_context_by_vectorstore\<close>\<close>

text \<open>
  Both functions take the list that \<^verbatim>\<open>plan_research\<close> returns (the planner is
  outside the modelled files, so its output \<open>planned\<close> is a parameter), append
  the query unless the report type is \<^verbatim>\<open>"subtopic_report"\<close>, and hand every
  entry of the list to the per-sub-query coroutine through \<^verbatim>\<open>asyncio.gather\<close>.
\<close>

definition web_search_sub_queries :: "string list \<Rightarrow> string \<Rightarrow> string \<Rightarrow> string list" where
  "web_search_sub_queries planned report_type query =
     (if report_type \<noteq> ''subtopic_report'' then planned @ [query] else planned)"

definition vectorstore_sub_queries :: "string list \<Rightarrow> string \<Rightarrow> string \<Rightarrow> string list" where
  "vectorstore_sub_queries planned report_type query =
     (if report_type \<noteq> ''subtopic_report'' then planned @ [query] else planned)"

text \<open>
  The fan-out: one call of \<open>process_sub_query\<close> per entry, in list order; the
  model returns the arguments of the calls with their results.
\<close>

definition fan_out :: "(string \<Rightarrow> 'a) \<Rightarrow> string list \<Rightarrow> (string \<times> 'a) list" where
  "fan_out process_sub_query sub_queries = map (\<lambda>q. (q, process_sub_query q)) sub_queries"

definition dispatched_by_web_search :: "(string \<Rightarrow> 'a) \<Rightarrow> string list \<Rightarrow> string \<Rightarrow> string \<Rightarrow> string list" where
  "dispatched_by_web_search process_sub_query planned report_type query =
     map fst (fan_out process_sub_query (web_search_sub_queries planned report_type query))"

definition dispatched_by_vectorstore :: "(string \<Rightarrow> 'a) \<Rightarrow> string list \<Rightarrow> string \<Rightarrow> string \<Rightarrow> string list" where
  "dispatched_by_vectorstore process_sub_query planned report_type query =
     map fst (fan_out process_sub_query (vectorstore_sub_queries planned report_type query))"


section \<open>Review: \<^verbatim>\<open>ReviewerAgent.review_draft\<close> and \<^verbatim>\<open>ReviewerAgent.run\<close>\<close>

text \<open>
  Python's \<^verbatim>\<open>needle in haystack\<close> on strings: the needle starts at some
  position of the haystack.
\<close>

fun py_in :: "string \<Rightarrow> string \<Rightarrow> bool" where
  "py_in needle [] = (needle = [])"
| "py_in needle (c # cs) = (prefix needle (c # cs) \<or> py_in needle cs)"

text \<open>
  The task dictionary and the draft state of the review workflow, with the
  keys the reviewer and the workflow read or write.
\<close>

record task =
  follow_guidelines :: bool
  guidelines :: "string list"

record draft_state =
  task :: task
  draft :: string
  review :: "string option"
  revision_notes :: "string option"

text \<open>
  \<^verbatim>\<open>review_draft\<close> logs, builds the prompt, calls the model and inspects the
  response. The model call is outside the modelled files; its outcome (an
  exception or the response text) is the parameter \<open>call_model\<close>. An exception
  is logged and raised again.
\<close>

definition review_draft :: "(py_error + string) \<Rightarrow> agent_state \<Rightarrow> (py_error + string option) \<times> agent_state" where
  "review_draft call_model s =
     (let s0 = append_research_log [Lit ''Starting draft review...''] False False s
      in case call_model of
           Inl e \<Rightarrow>
             (Inl e, append_research_log [Lit ''Error during draft review: '', Exc e] True True s0)
         | Inr response \<Rightarrow>
             (Inr (if py_in ''None'' response then None else Some response),
              append_research_log [Lit ''Draft review completed.''] True False s0))"

text \<open>
  \<^verbatim>\<open>run\<close> returns \<^verbatim>\<open>{"review": review}\<close>, which the workflow merges into the draft
  state; the model returns the merged state.
\<close>

definition reviewer_run ::
  "(py_error + string) \<Rightarrow> draft_state \<Rightarrow> agent_state \<Rightarrow> (py_error + draft_state) \<times> agent_state"
where
  "reviewer_run call_model d s =
     (if follow_guidelines (task d) then
        (case review_draft call_model s of
           (Inl e, s') \<Rightarrow> (Inl e, s')
         | (Inr rv, s') \<Rightarrow> (Inr (d\<lparr>review := rv\<rparr>), s'))
      else (Inr (d\<lparr>review := None\<rparr>), s))"

section \<open>The review workflow: \<^verbatim>\<open>EditorAgent._create_workflow\<close>\<close>

text \<open>
  The graph that \<^verbatim>\<open>_create_workflow\<close> builds: three nodes and the end marker,
  the entry point \<^verbatim>\<open>researcher\<close>, the edges \<^verbatim>\<open>researcher \<rightarrow> reviewer\<close> and
  \<^verbatim>\<open>reviser \<rightarrow> reviewer\<close>, and the conditional edge after \<^verbatim>\<open>reviewer\<close>.
\<close>

datatype node = Researcher | Reviewer | Reviser | END

datatype route = Accept | Revise

text \<open>\<^verbatim>\<open>lambda draft: "accept" if draft["review"] is None else "revise"\<close>.\<close>

definition review_route :: "draft_state \<Rightarrow> route" where
  "review_route d = (if review d = None then Accept else Revise)"

text \<open>\<^verbatim>\<open>{"accept": END, "revise": "reviser"}\<close>.\<close>

fun route_target :: "route \<Rightarrow> node" where
  "route_target Accept = END"
| "route_target Revise = Reviser"

definition entry_point :: node where
  "entry_point = Researcher"

fun next_node :: "node \<Rightarrow> draft_state \<Rightarrow> node" where
  "next_node Researcher d = Reviewer"
| "next_node Reviser d = Reviewer"
| "next_node Reviewer d = route_target (review_route d)"
| "next_node END d = END"

text \<open>
  Running the compiled graph, as the graph library does: the current node's
  function runs on the state and its update is merged, then the edge out of
  the node is followed, until the end marker is reached or a node raises. The
  node functions are the parameter \<open>agents\<close>; they share a world \<open>w\<close> (a stub's
  script, a log). The graph has a cycle and no iteration bound of its own, so the run
  takes fuel: \<open>None\<close> means that the fuel was used up before the end marker was
  reached. The result lists the nodes that were run, in order.
\<close>

fun run_workflow ::
  "nat \<Rightarrow> (node \<Rightarrow> draft_state \<Rightarrow> 'w \<Rightarrow> (py_error + draft_state) \<times> 'w) \<Rightarrow> node \<Rightarrow> draft_state \<Rightarrow> 'w \<Rightarrow>
   node list \<Rightarrow> (node list \<times> (py_error + draft_state) \<times> 'w) option"
where
  "run_workflow 0 agents nd d w trace = None"
| "run_workflow (Suc fuel) agents nd d w trace =
     (if nd = END then Some (trace, Inr d, w)
      else (case agents nd d w of
              (Inl e, w') \<Rightarrow> Some (trace @ [nd], Inl e, w')
            | (Inr d', w') \<Rightarrow> run_workflow fuel agents (next_node nd d') d' w' (trace @ [nd])))"

text \<open>
  Stub agents: the researcher and the reviser are arbitrary functions on the
  draft state, and the reviewer answers from a script of reviews, one per
  evaluation (\<^verbatim>\<open>None\<close> once the script is used up).
\<close>

fun stub_agents ::
  "(draft_state \<Rightarrow> draft_state) \<Rightarrow> (draft_state \<Rightarrow> draft_state) \<Rightarrow>
   node \<Rightarrow> draft_state \<Rightarrow> string option list \<Rightarrow> (py_error + draft_state) \<times> string option list"
where
  "stub_agents research revise Researcher d script = (Inr (research d), script)"
| "stub_agents research revise Reviser d script = (Inr (revise d), script)"
| "stub_agents research revise Reviewer d [] = (Inr (d\<lparr>review := None\<rparr>), [])"
| "stub_agents research revise Reviewer d (r # script) = (Inr (d\<lparr>review := r\<rparr>), script)"
| "stub_agents research revise END d script = (Inr d, script)"


section \<open>Properties of URL deduplication\<close>

lemma first_new_urls_Nil: "first_new_urls V [] = []"
  by (simp add: first_new_urls_def)

lemma first_new_urls_Cons:
  "first_new_urls V (x # xs) = (if x \<notin> V then [x] else []) @ first_new_urls (insert x V) xs"
proof -
  have idx: "[0..<length (x # xs)] = 0 # map Suc [0..<length xs]"
    by (simp add: upt_conv_Cons map_Suc_upt del: upt_Suc)
  show ?thesis
    unfolding first_new_urls_def idx
    by (auto simp: comp_def intro!: arg_cong [where f = concat])
qed

lemma new_urls_loop_result:
  "fst (new_urls_loop B s acc) = acc @ first_new_urls (visited_urls s) B"
proof (induction B arbitrary: s acc)
  case Nil
  show ?case by (simp add: first_new_urls_Nil)
next
  case (Cons url rest)
  show ?case
    by (simp add: Cons.IH first_new_urls_Cons Let_def insert_absorb)
qed

lemma new_urls_loop_visited:
  "visited_urls (snd (new_urls_loop B s acc)) = visited_urls s \<union> set B"
  by (induction B arbitrary: s acc) (auto simp: Let_def)

lemma first_new_urls_set: "set (first_new_urls V B) = set B - V"
  by (induction B arbitrary: V) (auto simp: first_new_urls_Nil first_new_urls_Cons)

lemma first_new_urls_distinct: "distinct (first_new_urls V B)"
  by (induction B arbitrary: V) (auto simp: first_new_urls_Nil first_new_urls_Cons first_new_urls_set)

text \<open>
  C1. For every visited set \<open>V\<close> and every batch \<open>B\<close>, \<^verbatim>\<open>_get_new_urls(B)\<close>
  returns exactly the URLs of \<open>B\<close> that are not in \<open>V\<close>, each once at its first
  occurrence and in input order, and afterwards the visited set is \<open>V \<union> B\<close>.
\<close>

theorem get_new_urls_dedup:
  "fst (get_new_urls B s) = first_new_urls (visited_urls s) B \<and>
   set (fst (get_new_urls B s)) = set B - visited_urls s \<and>
   distinct (fst (get_new_urls B s)) \<and>
   visited_urls (snd (get_new_urls B s)) = visited_urls s \<union> set B"
proof -
  let ?s0 = "skill_log_event [Lit ''Getting new URLs from: '', Urls B] False False s"
  have v0: "visited_urls ?s0 = visited_urls s"
    by (simp add: skill_log_event_def)
  have r: "fst (get_new_urls B s) = first_new_urls (visited_urls s) B"
    using new_urls_loop_result [of B ?s0 "[]"]
    by (simp add: get_new_urls_def Let_def split_beta v0)
  have v: "visited_urls (snd (get_new_urls B s)) = visited_urls s \<union> set B"
    using new_urls_loop_visited [of B ?s0 "[]"]
    by (simp add: get_new_urls_def Let_def split_beta v0 skill_log_event_def)
  show ?thesis
    by (simp add: r v first_new_urls_set first_new_urls_distinct)
qed

text \<open>
  The example of the specification: with \<^verbatim>\<open>a.com\<close> and \<^verbatim>\<open>b.com\<close> visited, the
  batch \<^verbatim>\<open>b.com\<close>, \<^verbatim>\<open>c.com\<close> yields \<^verbatim>\<open>c.com\<close> alone.
\<close>

lemma get_new_urls_example:
  "fst (get_new_urls [''b.com'', ''c.com'']
     \<lparr>visited_urls = {''a.com'', ''b.com''}, verbose = False, researcher_logs = [], streamed = []\<rparr>)
     = [''c.com''] \<and>
   visited_urls (snd (get_new_urls [''b.com'', ''c.com'']
     \<lparr>visited_urls = {''a.com'', ''b.com''}, verbose = False, researcher_logs = [], streamed = []\<rparr>))
     = {''a.com'', ''b.com'', ''c.com''}"
  by (auto simp: get_new_urls_def skill_log_event_def Let_def)

section \<open>Properties of the cost ledger\<close>

lemma add_costs_total:
  "costs (snd (add_costs c s)) = (if isinstance_float_int c then costs s + amount c else costs s)"
  by (simp add: add_costs_def Let_def split: option.splits)


lemma add_costs_all_append:
  "add_costs_all (cs @ ds) s = add_costs_all ds (add_costs_all cs s)"
  by (induction cs arbitrary: s) simp_all

lemma cost_totals_last: "last (cost_totals cs s) = costs (add_costs_all cs s)"
proof (induction cs arbitrary: s)
  case Nil
  show ?case by simp
next
  case (Cons c cs)
  have "cost_totals cs (snd (add_costs c s)) \<noteq> []"
    by (cases cs) simp_all
  then show ?case
    by (simp add: Cons.IH)
qed

lemma cost_totals_sorted:
  "(\<forall>c \<in> set cs. isinstance_float_int c \<longrightarrow> 0 \<le> amount c) \<Longrightarrow> sorted (cost_totals cs s)"
proof (induction cs arbitrary: s)
  case Nil
  show ?case by simp
next
  case (Cons c cs)
  have step: "costs s \<le> costs (snd (add_costs c s))"
    using Cons.prems by (simp add: add_costs_total)
  have rest: "sorted (cost_totals cs (snd (add_costs c s)))"
    using Cons.IH Cons.prems by simp
  have hd: "\<And>t. cost_totals cs t \<noteq> [] \<and> hd (cost_totals cs t) = costs t"
    by (cases cs) simp_all
  show ?case
    using step rest hd [of "snd (add_costs c s)"]
    by (cases "cost_totals cs (snd (add_costs c s))") auto
qed

lemma cost_totals_set_lower:
  "(\<forall>c \<in> set cs. isinstance_float_int c \<longrightarrow> 0 \<le> amount c) \<Longrightarrow>
   \<forall>t \<in> set (cost_totals cs s). costs s \<le> t"
proof (induction cs arbitrary: s)
  case Nil
  show ?case by simp
next
  case (Cons c cs)
  have step: "costs s \<le> costs (snd (add_costs c s))"
    using Cons.prems by (simp add: add_costs_total)
  have "\<forall>t \<in> set (cost_totals cs (snd (add_costs c s))). costs (snd (add_costs c s)) \<le> t"
    using Cons.IH Cons.prems by simp
  with step show ?case by auto
qed

text \<open>
  C3, as the code has it. The guard of \<^verbatim>\<open>add_costs\<close> is a type check only, so
  the invariant needs the amounts to be non-negative, as the estimator makes
  them: for every sequence of calls whose numeric amounts are all non-negative,
  rejected calls included, the totals seen after each call never decrease, and
  from a non-negative starting total none of them is negative.
\<close>

theorem add_costs_monotone:
  assumes "\<forall>c \<in> set cs. isinstance_float_int c \<longrightarrow> 0 \<le> amount c"
  shows "sorted (cost_totals cs s) \<and>
         (0 \<le> costs s \<longrightarrow> list_all (\<lambda>t. 0 \<le> t) (cost_totals cs s)) \<and>
         last (cost_totals cs s) = costs (add_costs_all cs s)"
proof -
  have mono: "sorted (cost_totals cs s)"
    using assms by (rule cost_totals_sorted)
  have nonneg: "list_all (\<lambda>t. 0 \<le> t) (cost_totals cs s)" if "0 \<le> costs s"
    using cost_totals_set_lower [OF assms, of s] that by (auto simp: list_all_iff)
  have final: "last (cost_totals cs s) = costs (add_costs_all cs s)"
    by (rule cost_totals_last)
  show ?thesis
    using mono nonneg final by simp
qed

theorem add_costs_monotone_witness:
  "cost_totals [PyFloat (1/2), PyStr ''free'', PyInt 2, PyBool True] (initial_cost_state (Some True))
     = [0, 1/2, 1/2, 5/2, 7/2] \<and>
   sorted (cost_totals [PyFloat (1/2), PyStr ''free'', PyInt 2, PyBool True] (initial_cost_state (Some True))) \<and>
   list_all (\<lambda>t. 0 \<le> t)
     (cost_totals [PyFloat (1/2), PyStr ''free'', PyInt 2, PyBool True] (initial_cost_state (Some True))) \<and>
   costs (add_costs_all [PyFloat (1/2), PyStr ''free'', PyInt 2, PyBool True] (initial_cost_state (Some True)))
     = 7/2"
proof -
  let ?cs = "[PyFloat (1/2), PyStr ''free'', PyInt 2, PyBool True]"
  let ?s = "initial_cost_state (Some True)"
  have pre: "\<forall>c \<in> set ?cs. isinstance_float_int c \<longrightarrow> 0 \<le> amount c"
    by simp
  have start: "0 \<le> costs ?s"
    by (simp add: initial_cost_state_def)
  have run: "cost_totals ?cs ?s = [0, 1/2, 1/2, 5/2, 7/2]"
    by (simp add: initial_cost_state_def add_costs_def)
  show ?thesis
    using add_costs_monotone [OF pre, of ?s] start run by simp
qed

text \<open>
  The claim as stated fails: a negative int passes the type check, is accepted
  without an exception, and takes the total from 0 to -1.
\<close>

theorem add_costs_negative_counterexample:
  "fst (add_costs (PyInt (- 1)) (initial_cost_state (Some True))) = None \<and>
   costs (snd (add_costs (PyInt (- 1)) (initial_cost_state (Some True)))) = - 1 \<and>
   costs (snd (add_costs (PyInt (- 1)) (initial_cost_state (Some True))))
     < costs (initial_cost_state (Some True)) \<and>
   costs (snd (add_costs (PyInt (- 1)) (initial_cost_state (Some True)))) < 0"
  by (simp add: add_costs_def initial_cost_state_def)



section \<open>Properties of image selection\<close>











section \<open>Properties of source curation\<close>

text \<open>
  C5. For every source list: if the model call raises, or its output is not
  parsable as JSON, \<^verbatim>\<open>curate_sources\<close> returns the list it was given, appends an
  error event to the log (after the opening event), changes nothing else, and
  does not raise.
\<close>

theorem curate_sources_fail_open:
  assumes "llm_response = Inl e \<or> (llm_response = Inr r \<and> json_loads r = Inl e)"
  shows "curate_sources llm_response json_loads source_data s =
           (Unfiltered source_data,
            s\<lparr>research_logs := research_logs s @
               [log_entry [Lit ''Evaluating and curating sources by credibility and relevance...''] False False,
                log_entry [Lit ''Error curating sources: '', Exc e] True True]\<rparr>)"
  using assms
  by (auto simp: curate_sources_def curation_failed_def append_research_log_def Let_def)

theorem curate_sources_fail_open_witness:
  "curate_sources (Inr ''not json'') (\<lambda>t. Inl (JSONDecodeError ''Expecting value''))
       [''https://a.example'', ''https://b.example'']
       \<lparr>research_logs = [], writer_logs = [], curated_sources = None\<rparr>
     = (Unfiltered [''https://a.example'', ''https://b.example''],
        \<lparr>research_logs =
           [log_entry [Lit ''Evaluating and curating sources by credibility and relevance...''] False False,
            log_entry [Lit ''Error curating sources: '', Exc (JSONDecodeError ''Expecting value'')] True True],
         writer_logs = [], curated_sources = None\<rparr>) \<and>
   error_flag (last (research_logs (snd
     (curate_sources (Inl (RuntimeError ''timeout'')) (\<lambda>t. Inr JNull) [''https://a.example'']
        \<lparr>research_logs = [], writer_logs = [], curated_sources = None\<rparr>)))) \<and>
   fst (curate_sources (Inl (RuntimeError ''timeout'')) (\<lambda>t. Inr JNull) [''https://a.example'']
        \<lparr>research_logs = [], writer_logs = [], curated_sources = None\<rparr>)
     = Unfiltered [''https://a.example'']"
proof -
  let ?s = "\<lparr>research_logs = [], writer_logs = [], curated_sources = None\<rparr>"
  let ?bad = "\<lambda>t::string. (Inl (JSONDecodeError ''Expecting value'') :: py_error + json)"
  have parse: "(Inr ''not json'' :: py_error + string) = Inl (JSONDecodeError ''Expecting value'') \<or>
      ((Inr ''not json'' :: py_error + string) = Inr ''not json'' \<and>
       ?bad ''not json'' = Inl (JSONDecodeError ''Expecting value''))"
    by simp
  have raise: "(Inl (RuntimeError ''timeout'') :: py_error + string) = Inl (RuntimeError ''timeout'') \<or>
      ((Inl (RuntimeError ''timeout'') :: py_error + string) = Inr [] \<and>
       (\<lambda>t::string. (Inr JNull :: py_error + json)) [] = Inl (RuntimeError ''timeout''))"
    by simp
  show ?thesis
    using curate_sources_fail_open [OF parse, of "[''https://a.example'', ''https://b.example'']" ?s]
      curate_sources_fail_open [OF raise, of "[''https://a.example'']" ?s]
    by (simp add: log_entry_def)
qed

section \<open>Properties of report generation\<close>

text \<open>
  C6. If the structured call (system and user message) fails,
  \<^verbatim>\<open>generate_report\<close> makes exactly one more call, with the single user-role
  message that holds the role prompt, a blank line and the user content; if
  that call fails too, it returns the empty string, logs the failure (an error
  entry in \<^verbatim>\<open>writer_logs\<close> when a state is given, and a printed line) and does
  not raise.
\<close>

theorem generate_report_degrades:
  assumes "llm 0 (structured_messages agent_role_prompt prompt) = Inl e1"
  shows "calls (generate_report llm agent_role_prompt prompt state) =
           [structured_messages agent_role_prompt prompt,
            [\<lparr>role = ''user'', content = agent_role_prompt @ [CHR 0x0A, CHR 0x0A] @ prompt\<rparr>]] \<and>
         (case llm 1 (flattened_messages agent_role_prompt prompt) of
            Inr text \<Rightarrow> report (generate_report llm agent_role_prompt prompt state) = text
          | Inl e2 \<Rightarrow>
              report (generate_report llm agent_role_prompt prompt state) = [] \<and>
              printed (generate_report llm agent_role_prompt prompt state) =
                [[Lit ''Error in generate_report: '', Exc e2]] \<and>
              state_after (generate_report llm agent_role_prompt prompt state) =
                map_option (\<lambda>s. s\<lparr>writer_logs := writer_logs s @
                    [log_entry [Lit ''Generating report...''] False False,
                     log_entry [Lit ''Error generating report: '', Exc e2] True True]\<rparr>) state)"
  using assms
  by (cases state)
     (auto simp: generate_report_def flattened_messages_def append_writer_log_def Let_def
           split: sum.splits)

theorem generate_report_degrades_witness:
  "generate_report (\<lambda>n ms. Inl (RuntimeError ''rate limit'')) ''You are an analyst.'' ''Write the report.''
       (Some \<lparr>research_logs = [], writer_logs = [], curated_sources = None\<rparr>)
     = \<lparr>report = [],
        calls = [[\<lparr>role = ''system'', content = ''You are an analyst.''\<rparr>,
                  \<lparr>role = ''user'', content = ''Write the report.''\<rparr>],
                 [\<lparr>role = ''user'',
                   content = ''You are an analyst.'' @ [CHR 0x0A, CHR 0x0A] @ ''Write the report.''\<rparr>]],
        state_after = Some \<lparr>research_logs = [],
          writer_logs = [log_entry [Lit ''Generating report...''] False False,
                         log_entry [Lit ''Error generating report: '', Exc (RuntimeError ''rate limit'')] True True],
          curated_sources = None\<rparr>,
        printed = [[Lit ''Error in generate_report: '', Exc (RuntimeError ''rate limit'')]]\<rparr>"
proof -
  let ?llm = "\<lambda>(n::nat) (ms::chat_message list). (Inl (RuntimeError ''rate limit'') :: py_error + string)"
  have first: "?llm 0 (structured_messages ''You are an analyst.'' ''Write the report.'')
                 = Inl (RuntimeError ''rate limit'')"
    by simp
  show ?thesis
    using generate_report_degrades [OF first,
        where state = "Some \<lparr>research_logs = [], writer_logs = [], curated_sources = None\<rparr>"]
    by (simp add: structured_messages_def report_outcome.equality)
qed

section \<open>Properties of the provider registries\<close>

lemma get_retriever_None_iff: "get_retriever r = None \<longleftrightarrow> r \<notin> set retriever_names"
  by (simp add: get_retriever_def retriever_names_def)

lemma from_provider_unsupported:
  "provider \<notin> set supported_providers \<Longrightarrow>
   from_provider find_spec environ provider = Inl (ValueError (''Unsupported '' @ provider))"
  by (simp add: from_provider_def supported_providers_def)

text \<open>
  C7, as the code has it. A retriever name without a case in \<^verbatim>\<open>get_retriever\<close>
  resolves to \<^verbatim>\<open>None\<close>, with no error, and \<^verbatim>\<open>get_retrievers\<close> puts the default
  retriever \<^verbatim>\<open>TavilySearch\<close> in its place: the result has one adapter per chosen
  name and never fails. A provider name outside \<^verbatim>\<open>_SUPPORTED_PROVIDERS\<close> makes
  \<^verbatim>\<open>from_provider\<close> raise \<^verbatim>\<open>ValueError\<close>, whatever is installed.
\<close>

theorem unsupported_names_resolution:
  "(r \<notin> set retriever_names \<longrightarrow> get_retriever r = None \<and> retriever_or_default r = TavilySearch) \<and>
   length (get_retrievers headers cfg) = length (chosen_retrievers headers cfg) \<and>
   (\<forall>i < length (chosen_retrievers headers cfg).
      chosen_retrievers headers cfg ! i \<notin> set retriever_names \<longrightarrow>
      get_retrievers headers cfg ! i = TavilySearch) \<and>
   (provider \<notin> set supported_providers \<longrightarrow>
      from_provider find_spec environ provider = Inl (ValueError (''Unsupported '' @ provider)))"
proof -
  have fallback: "retriever_or_default n = TavilySearch" if "n \<notin> set retriever_names" for n
    using that get_retriever_None_iff [of n]
    by (simp add: retriever_or_default_def get_default_retriever_def)
  have single: "r \<notin> set retriever_names \<longrightarrow> get_retriever r = None \<and> retriever_or_default r = TavilySearch"
    using fallback [of r] get_retriever_None_iff [of r] by simp
  have len: "length (get_retrievers headers cfg) = length (chosen_retrievers headers cfg)"
    by (simp add: get_retrievers_def)
  have each: "\<forall>i < length (chosen_retrievers headers cfg).
      chosen_retrievers headers cfg ! i \<notin> set retriever_names \<longrightarrow>
      get_retrievers headers cfg ! i = TavilySearch"
    using fallback by (simp add: get_retrievers_def)
  have prov: "provider \<notin> set supported_providers \<longrightarrow>
      from_provider find_spec environ provider = Inl (ValueError (''Unsupported '' @ provider))"
    using from_provider_unsupported by blast
  show ?thesis
    using single len each prov by blast
qed

theorem unsupported_names_resolution_witness:
  "get_retriever ''yahoo'' = None \<and>
   retriever_or_default ''yahoo'' = TavilySearch \<and>
   chosen_retrievers (Map.empty(''retrievers'' \<mapsto> ''bing,yahoo'')) \<lparr>retrievers = [], retriever = []\<rparr>
     = [''bing'', ''yahoo''] \<and>
   get_retrievers (Map.empty(''retrievers'' \<mapsto> ''bing,yahoo'')) \<lparr>retrievers = [], retriever = []\<rparr> ! 1
     = TavilySearch \<and>
   from_provider (\<lambda>pkg. True) Map.empty ''palm'' = Inl (ValueError ''Unsupported palm'')"
proof -
  let ?h = "Map.empty(''retrievers'' \<mapsto> ''bing,yahoo'')"
  let ?cfg = "\<lparr>retrievers = [], retriever = []\<rparr>"
  have name: "''yahoo'' \<notin> set retriever_names"
    by (simp add: retriever_names_def)
  have chosen: "chosen_retrievers ?h ?cfg = [''bing'', ''yahoo'']"
    by (simp add: chosen_retrievers_def truthy_str_def)
  have prov: "''palm'' \<notin> set supported_providers"
    by (simp add: supported_providers_def)
  show ?thesis
    using unsupported_names_resolution [of "''yahoo''" ?h ?cfg "''palm''" "\<lambda>pkg. True" Map.empty]
      name chosen prov
    by simp
qed

text \<open>
  The claim as stated fails for retrievers: the unsupported name \<^verbatim>\<open>yahoo\<close> raises
  nothing and is mapped to the Tavily adapter.
\<close>

theorem get_retrievers_fallback_counterexample:
  "get_retriever ''yahoo'' = None \<and>
   get_retrievers (Map.empty(''retriever'' \<mapsto> ''yahoo'')) \<lparr>retrievers = [], retriever = []\<rparr>
     = [TavilySearch] \<and>
   get_retrievers (Map.empty(''retrievers'' \<mapsto> ''bing,yahoo'')) \<lparr>retrievers = [], retriever = []\<rparr>
     = [BingSearch, TavilySearch] \<and>
   get_retrievers Map.empty \<lparr>retrievers = [''yahoo'', ''arxiv''], retriever = []\<rparr>
     = [TavilySearch, ArxivSearch]"
  by (simp add: get_retrievers_def chosen_retrievers_def truthy_str_def retriever_or_default_def
      get_retriever_def get_default_retriever_def)

section \<open>Properties of the sub-query lists\<close>

text \<open>
  C8, as the code has it. Neither function removes duplicates. The list handed
  to the fan-out is the planner's list followed by the query when the report
  type is not \<^verbatim>\<open>"subtopic_report"\<close>, and the planner's list as it is otherwise.
  Hence it is free of duplicates exactly when the planner's list is and, for a
  report that is not a sub-topic report, the planner did not already produce
  the query; and it contains the query exactly when the report is not a
  sub-topic report or the planner produced the query.
\<close>

theorem sub_queries_construction:
  "dispatched_by_web_search process planned report_type query =
     (if report_type \<noteq> ''subtopic_report'' then planned @ [query] else planned) \<and>
   dispatched_by_vectorstore process' planned report_type query =
     dispatched_by_web_search process planned report_type query \<and>
   (distinct (dispatched_by_web_search process planned report_type query) \<longleftrightarrow>
      distinct planned \<and> (report_type \<noteq> ''subtopic_report'' \<longrightarrow> query \<notin> set planned)) \<and>
   (query \<in> set (dispatched_by_web_search process planned report_type query) \<longleftrightarrow>
      report_type \<noteq> ''subtopic_report'' \<or> query \<in> set planned)"
  by (auto simp: dispatched_by_web_search_def dispatched_by_vectorstore_def fan_out_def
      web_search_sub_queries_def vectorstore_sub_queries_def comp_def)

theorem sub_queries_construction_witness:
  "dispatched_by_web_search (\<lambda>q. length q) [''solar cost'', ''wind cost''] ''research_report'' ''energy cost''
     = [''solar cost'', ''wind cost'', ''energy cost''] \<and>
   dispatched_by_vectorstore (\<lambda>q. q) [''solar cost'', ''wind cost''] ''research_report'' ''energy cost''
     = [''solar cost'', ''wind cost'', ''energy cost''] \<and>
   distinct (dispatched_by_web_search (\<lambda>q. length q) [''solar cost'', ''wind cost''] ''research_report''
     ''energy cost'') \<and>
   dispatched_by_web_search (\<lambda>q. length q) [''solar cost'', ''wind cost''] ''subtopic_report'' ''energy cost''
     = [''solar cost'', ''wind cost'']"
proof -
  have other: "''research_report'' \<noteq> ''subtopic_report''"
    by simp
  show ?thesis
    using sub_queries_construction [of "\<lambda>q. length q" "[''solar cost'', ''wind cost'']" "''research_report''"
        "''energy cost''" "\<lambda>q. q"]
      sub_queries_construction [of "\<lambda>q. length q" "[''solar cost'', ''wind cost'']" "''subtopic_report''"
        "''energy cost''" "\<lambda>q. q"]
      other
    by simp
qed

text \<open>
  The claim as stated fails twice: a planner that repeats a sub-query, or that
  produces the query itself, gives a list with duplicates; and for a sub-topic
  report the list contains the original query whenever the planner produced it.
\<close>

theorem sub_queries_duplicates_counterexample:
  "dispatched_by_web_search (\<lambda>q. q) [''solar cost'', ''solar cost''] ''research_report'' ''energy cost''
     = [''solar cost'', ''solar cost'', ''energy cost''] \<and>
   \<not> distinct (dispatched_by_web_search (\<lambda>q. q) [''solar cost'', ''solar cost''] ''research_report''
     ''energy cost'') \<and>
   \<not> distinct (dispatched_by_web_search (\<lambda>q. q) [''energy cost''] ''research_report'' ''energy cost'') \<and>
   ''energy cost'' \<in> set (dispatched_by_web_search (\<lambda>q. q) [''energy cost'', ''wind cost'']
     ''subtopic_report'' ''energy cost'')"
  by (simp add: dispatched_by_web_search_def fan_out_def web_search_sub_queries_def comp_def)

section \<open>Properties of the reviewer\<close>

lemma py_in_sublist: "py_in needle haystack \<longleftrightarrow> sublist needle haystack"
  by (induction haystack) (simp_all add: sublist_Cons_right)

lemma py_in_occurs: "py_in needle haystack \<longleftrightarrow> (\<exists>pre post. haystack = pre @ needle @ post)"
  by (simp add: py_in_sublist sublist_def)

text \<open>
  C10. For every response text of the model, \<^verbatim>\<open>review_draft\<close> returns \<^verbatim>\<open>None\<close>
  exactly when the four characters \<^verbatim>\<open>None\<close> occur somewhere in the response,
  and the whole response as feedback otherwise; \<^verbatim>\<open>run\<close> stores that result as
  the review, and the workflow goes from a \<^verbatim>\<open>None\<close> review to the end marker.
  So a revision note that merely contains the word is an acceptance.
\<close>

theorem review_draft_substring:
  "fst (review_draft (Inr response) s) =
     Inr (if (\<exists>pre post. response = pre @ ''None'' @ post) then None else Some response) \<and>
   fst (reviewer_run (Inr response) (d\<lparr>task := (task d)\<lparr>follow_guidelines := True\<rparr>\<rparr>) s) =
     Inr (d\<lparr>task := (task d)\<lparr>follow_guidelines := True\<rparr>,
            review := if (\<exists>pre post. response = pre @ ''None'' @ post) then None else Some response\<rparr>) \<and>
   fst (review_draft (Inr ''Section 2 needs work. None of its claims cites a source.'') s) = Inr None \<and>
   fst (review_draft (Inr ''Section 2 needs work.'') s) = Inr (Some ''Section 2 needs work.'') \<and>
   next_node Reviewer (d\<lparr>review := None\<rparr>) = END"
proof -
  have general: "fst (review_draft (Inr r) s) =
      Inr (if (\<exists>pre post. r = pre @ ''None'' @ post) then None else Some r)" for r
    by (simp add: review_draft_def Let_def py_in_occurs)
  have run: "fst (reviewer_run (Inr response) (d\<lparr>task := (task d)\<lparr>follow_guidelines := True\<rparr>\<rparr>) s) =
      Inr (d\<lparr>task := (task d)\<lparr>follow_guidelines := True\<rparr>,
             review := if (\<exists>pre post. response = pre @ ''None'' @ post) then None else Some response\<rparr>)"
    by (simp add: reviewer_run_def review_draft_def Let_def py_in_occurs)
  have word: "fst (review_draft (Inr ''Section 2 needs work. None of its claims cites a source.'') s) = Inr None"
    by (simp add: review_draft_def Let_def)
  have plain: "fst (review_draft (Inr ''Section 2 needs work.'') s) = Inr (Some ''Section 2 needs work.'')"
    by (simp add: review_draft_def Let_def)
  have accept: "next_node Reviewer (d\<lparr>review := None\<rparr>) = END"
    by (simp add: review_route_def)
  show ?thesis
    using general [of response] run word plain accept by simp
qed

section \<open>Properties of the review workflow\<close>

text \<open>
  C2. After the reviewer, a review that is \<^verbatim>\<open>None\<close> leads to the end marker and
  the run ends; any other review leads to the reviser, and from the reviser
  the only edge leads back to the reviewer. With a reviewer stub that returns
  feedback once and \<^verbatim>\<open>None\<close> after that, whatever the researcher and the reviser
  do, the run ends (with enough fuel: five steps or more) after exactly the
  nodes researcher, reviewer, reviser, reviewer: two review evaluations and one
  revision, with the review \<^verbatim>\<open>None\<close> at the end.
\<close>

theorem review_loop_two_reviews:
  "next_node Reviewer (d\<lparr>review := None\<rparr>) = END \<and>
   run_workflow (Suc (Suc n)) agents END d w trace = Some (trace, Inr d, w) \<and>
   next_node Reviewer (d\<lparr>review := Some f\<rparr>) = Reviser \<and>
   next_node Reviser d = Reviewer \<and>
   next_node entry_point d = Reviewer \<and>
   run_workflow (5 + n) (stub_agents research revise) entry_point d [Some f, None] [] =
     Some ([Researcher, Reviewer, Reviser, Reviewer],
           Inr ((revise ((research d)\<lparr>review := Some f\<rparr>))\<lparr>review := None\<rparr>), []) \<and>
   length (filter (\<lambda>x. x = Reviewer) [Researcher, Reviewer, Reviser, Reviewer]) = 2 \<and>
   length (filter (\<lambda>x. x = Reviser) [Researcher, Reviewer, Reviser, Reviewer]) = 1"
proof -
  have fuel: "5 + n = Suc (Suc (Suc (Suc (Suc n))))"
    by simp
  have run: "run_workflow (5 + n) (stub_agents research revise) entry_point d [Some f, None] [] =
     Some ([Researcher, Reviewer, Reviser, Reviewer],
           Inr ((revise ((research d)\<lparr>review := Some f\<rparr>))\<lparr>review := None\<rparr>), [])"
    unfolding fuel by (simp add: entry_point_def review_route_def)
  show ?thesis
    using run by (simp add: entry_point_def review_route_def)
qed

end
